theory Spec2Isabelle
  imports Main "HOL-Library.Word"
begin

section \<open>The network target of \<open>src/config/have_sys_socket.c\<close>\<close>

text \<open>
  The file implements the socket back end of a network target: initialise, open, reopen,
  close, send over TCP, send over UDP and the open test. Every function works on one
  \<open>struct network_target\<close> through a pointer and talks to the operating system and to
  collaborators of the library (the connect wrapper, the mutex wrapper, the error reporters).

  The embedding is state passing. A \<open>world\<close> holds the target the pointer refers to, the
  thread's \<open>errno\<close> and the history of every call the code made to the outside, with the
  arguments it passed and the value it got back. What the outside answers is not decided
  by this file, so it is a parameter: an \<open>environment\<close> gives, for the history so far and the
  arguments of a call, the value that call returns. A theorem stated for every environment
  holds whatever the operating system does.
\<close>

subsection \<open>Machine integers and constants of the system headers\<close>

type_synonym c_int = "32 word"
type_synonym size_t = "64 word"
type_synonym ssize_t = "64 word"

text \<open>
  \<open>int\<close> is 32 bits wide, \<open>size_t\<close> and \<open>ssize_t\<close> are 64 bits wide; \<open>ssize_t\<close> is read in
  two's complement, so the error value \<open>-1\<close> is the word of all ones, and adding an
  \<open>ssize_t\<close> to a \<open>size_t\<close> is addition of words.

  The address families, socket types and message flags are names of the system headers.
  They are kept as names; a flag argument (flags joined by bitwise or) is the set of the
  flags it holds.
\<close>

datatype address_family = AF_INET | AF_INET6

datatype socket_type = SOCK_STREAM | SOCK_DGRAM

datatype msg_flag = MSG_DONTWAIT | MSG_PEEK | MSG_NOSIGNAL

subsection \<open>The target\<close>

text \<open>
  \<open>struct network_target\<close>: the fields this file reads and writes. The mutex is an opaque
  resource of the thread-safety wrapper; the calls on it are recorded in the history.
\<close>

record network_target =
  destination :: string
  port :: string
  handle :: c_int

text \<open>
  A function returning \<open>struct network_target *\<close> returns either \<open>NULL\<close> or the pointer it
  was given.
\<close>

datatype target_ptr = NULL | Target_ptr

subsection \<open>Calls to the outside\<close>

text \<open>
  One constructor for each outside call the file makes, with the arguments passed and,
  last, the value returned where the code reads it.
  \<^item> \<open>Send fd buf len flags r\<close>: \<open>buf\<close> is the content of the \<open>len\<close> bytes at the pointer passed.
  \<^item> \<open>Raise_socket_send_failure code\<close>: the message and the code type are fixed macros, the
    code is the value of \<open>errno\<close> passed.
\<close>

datatype event =
    Mutex_init
  | Mutex_destroy
  | Mutex_lock
  | Mutex_unlock
  | Connect string string address_family socket_type c_int c_int
  | Close c_int
  | Recv c_int size_t "msg_flag set" ssize_t
  | Send c_int string size_t "msg_flag set" ssize_t
  | Raise_network_closed
  | Raise_socket_send_failure c_int

record environment =
  connect_reply :: "event list \<Rightarrow> string \<Rightarrow> string \<Rightarrow> address_family \<Rightarrow> socket_type \<Rightarrow> c_int \<Rightarrow> c_int"
  recv_reply :: "event list \<Rightarrow> c_int \<Rightarrow> size_t \<Rightarrow> msg_flag set \<Rightarrow> ssize_t \<times> c_int"
  send_reply :: "event list \<Rightarrow> c_int \<Rightarrow> string \<Rightarrow> size_t \<Rightarrow> msg_flag set \<Rightarrow> ssize_t \<times> c_int"
  config_disallow_signal_during_sending_flag :: "msg_flag set"

text \<open>
  \<open>recv_reply\<close> and \<open>send_reply\<close> give the value returned and the value of \<open>errno\<close> after
  the call. \<open>errno\<close> is read by this file only after a \<open>send\<close>; the mutex wrapper and the
  error reporters return nothing and are taken to leave \<open>errno\<close> as it is.
\<close>

record world =
  target :: network_target
  errno :: c_int
  history :: "event list"

definition emit :: "event \<Rightarrow> world \<Rightarrow> world" where
  "emit e w = w\<lparr>history := history w @ [e]\<rparr>"

definition set_handle :: "c_int \<Rightarrow> world \<Rightarrow> world" where
  "set_handle h w = w\<lparr>target := (target w)\<lparr>handle := h\<rparr>\<rparr>"

definition lock_network_target :: "world \<Rightarrow> world" where
  "lock_network_target w = emit Mutex_lock w"

definition unlock_network_target :: "world \<Rightarrow> world" where
  "unlock_network_target w = emit Mutex_unlock w"

definition config_init_mutex :: "world \<Rightarrow> world" where
  "config_init_mutex w = emit Mutex_init w"

definition config_destroy_mutex :: "world \<Rightarrow> world" where
  "config_destroy_mutex w = emit Mutex_destroy w"

definition close_fd :: "c_int \<Rightarrow> world \<Rightarrow> world" where
  "close_fd fd w = emit (Close fd) w"

definition config_int_connect ::
  "environment \<Rightarrow> string \<Rightarrow> string \<Rightarrow> address_family \<Rightarrow> socket_type \<Rightarrow> c_int \<Rightarrow> world \<Rightarrow> c_int \<times> world"
where
  "config_int_connect env dest prt af st proto w =
     (let r = connect_reply env (history w) dest prt af st proto
      in (r, emit (Connect dest prt af st proto r) w))"

definition recv ::
  "environment \<Rightarrow> c_int \<Rightarrow> size_t \<Rightarrow> msg_flag set \<Rightarrow> world \<Rightarrow> ssize_t \<times> world"
where
  "recv env fd len flags w =
     (let (r, e) = recv_reply env (history w) fd len flags
      in (r, (emit (Recv fd len flags r) w)\<lparr>errno := e\<rparr>))"

definition send ::
  "environment \<Rightarrow> c_int \<Rightarrow> string \<Rightarrow> size_t \<Rightarrow> msg_flag set \<Rightarrow> world \<Rightarrow> ssize_t \<times> world"
where
  "send env fd buf len flags w =
     (let (r, e) = send_reply env (history w) fd buf len flags
      in (r, (emit (Send fd buf len flags r) w)\<lparr>errno := e\<rparr>))"

definition raise_network_closed :: "world \<Rightarrow> world" where
  "raise_network_closed w = emit Raise_network_closed w"

definition raise_socket_send_failure :: "c_int \<Rightarrow> world \<Rightarrow> world" where
  "raise_socket_send_failure code w = emit (Raise_socket_send_failure code) w"

text \<open>
  \<open>bytes_at msg off len\<close>: the \<open>len\<close> bytes found at the pointer \<open>msg + off\<close>, for a
  message buffer holding \<open>msg\<close>. The caller of a send function passes a buffer of
  \<open>msg_size\<close> bytes, so the reads of the code stay inside \<open>msg\<close>.
\<close>

definition bytes_at :: "string \<Rightarrow> size_t \<Rightarrow> size_t \<Rightarrow> string" where
  "bytes_at msg off len = take (unat len) (drop (unat off) msg)"

subsection \<open>Close, initialise, open test\<close>

definition sys_socket_network_target_is_open :: "world \<Rightarrow> c_int \<times> world" where
  "sys_socket_network_target_is_open w =
     (if handle (target w) \<noteq> -1 then 1 else 0, w)"

definition sys_socket_close_network_target :: "world \<Rightarrow> world" where
  "sys_socket_close_network_target w0 =
     (let w1 = (if handle (target w0) \<noteq> -1 then close_fd (handle (target w0)) w0 else w0)
      in config_destroy_mutex w1)"

definition sys_socket_init_network_target :: "world \<Rightarrow> world" where
  "sys_socket_init_network_target w0 =
     (let w1 = set_handle (-1) w0
      in config_init_mutex w1)"

subsection \<open>Open\<close>

definition sys_socket_open_tcp4_target :: "environment \<Rightarrow> world \<Rightarrow> target_ptr \<times> world" where
  "sys_socket_open_tcp4_target env w0 =
     (let w1 = lock_network_target w0;
          (result, w2) = config_int_connect env (destination (target w1)) (port (target w1))
                           AF_INET SOCK_STREAM 0 w1;
          w3 = set_handle result w2;
          w4 = unlock_network_target w3
      in (if result = -1 then NULL else Target_ptr, w4))"

definition sys_socket_open_tcp6_target :: "environment \<Rightarrow> world \<Rightarrow> target_ptr \<times> world" where
  "sys_socket_open_tcp6_target env w0 =
     (let w1 = lock_network_target w0;
          (result, w2) = config_int_connect env (destination (target w1)) (port (target w1))
                           AF_INET6 SOCK_STREAM 0 w1;
          w3 = set_handle result w2;
          w4 = unlock_network_target w3
      in (if result = -1 then NULL else Target_ptr, w4))"

definition sys_socket_open_udp4_target :: "environment \<Rightarrow> world \<Rightarrow> target_ptr \<times> world" where
  "sys_socket_open_udp4_target env w0 =
     (let w1 = lock_network_target w0;
          (result, w2) = config_int_connect env (destination (target w1)) (port (target w1))
                           AF_INET SOCK_DGRAM 0 w1;
          w3 = set_handle result w2;
          w4 = unlock_network_target w3
      in (if result = -1 then NULL else Target_ptr, w4))"

definition sys_socket_open_udp6_target :: "environment \<Rightarrow> world \<Rightarrow> target_ptr \<times> world" where
  "sys_socket_open_udp6_target env w0 =
     (let w1 = lock_network_target w0;
          (result, w2) = config_int_connect env (destination (target w1)) (port (target w1))
                           AF_INET6 SOCK_DGRAM 0 w1;
          w3 = set_handle result w2;
          w4 = unlock_network_target w3
      in (if result = -1 then NULL else Target_ptr, w4))"

subsection \<open>Reopen\<close>

definition sys_socket_reopen_tcp4_target :: "environment \<Rightarrow> world \<Rightarrow> target_ptr \<times> world" where
  "sys_socket_reopen_tcp4_target env w0 =
     (let w1 = lock_network_target w0;
          (is_open, w2) = sys_socket_network_target_is_open w1;
          w5 = (if is_open \<noteq> 0 then
                  (let w3 = close_fd (handle (target w2)) w2;
                       (result, w4) = config_int_connect env (destination (target w3))
                                        (port (target w3)) AF_INET SOCK_STREAM 0 w3
                   in set_handle result w4)
                else w2);
          w6 = unlock_network_target w5
      in (Target_ptr, w6))"

definition sys_socket_reopen_tcp6_target :: "environment \<Rightarrow> world \<Rightarrow> target_ptr \<times> world" where
  "sys_socket_reopen_tcp6_target env w0 =
     (let w1 = lock_network_target w0;
          (is_open, w2) = sys_socket_network_target_is_open w1;
          w5 = (if is_open \<noteq> 0 then
                  (let w3 = close_fd (handle (target w2)) w2;
                       (result, w4) = config_int_connect env (destination (target w3))
                                        (port (target w3)) AF_INET6 SOCK_STREAM 0 w3
                   in set_handle result w4)
                else w2);
          w6 = unlock_network_target w5
      in (Target_ptr, w6))"

definition sys_socket_reopen_udp4_target :: "environment \<Rightarrow> world \<Rightarrow> target_ptr \<times> world" where
  "sys_socket_reopen_udp4_target env w0 =
     (let w1 = lock_network_target w0;
          (is_open, w2) = sys_socket_network_target_is_open w1;
          w5 = (if is_open \<noteq> 0 then
                  (let w3 = close_fd (handle (target w2)) w2;
                       (result, w4) = config_int_connect env (destination (target w3))
                                        (port (target w3)) AF_INET SOCK_DGRAM 0 w3
                   in set_handle result w4)
                else w2);
          w6 = unlock_network_target w5
      in (Target_ptr, w6))"

definition sys_socket_reopen_udp6_target :: "environment \<Rightarrow> world \<Rightarrow> target_ptr \<times> world" where
  "sys_socket_reopen_udp6_target env w0 =
     (let w1 = lock_network_target w0;
          (is_open, w2) = sys_socket_network_target_is_open w1;
          w5 = (if is_open \<noteq> 0 then
                  (let w3 = close_fd (handle (target w2)) w2;
                       (result, w4) = config_int_connect env (destination (target w3))
                                        (port (target w3)) AF_INET6 SOCK_DGRAM 0 w3
                   in set_handle result w4)
                else w2);
          w6 = unlock_network_target w5
      in (Target_ptr, w6))"

subsection \<open>Send over TCP\<close>

text \<open>
  One pass through the body of the \<open>while\<close> loop of \<open>sys_socket_sendto_tcp_target\<close>, entered
  with \<open>sent_bytes < msg_size\<close>. It ends in a \<open>break\<close>, with the value of \<open>result\<close>, or at
  the bottom of the body, with the new value of \<open>sent_bytes\<close>. The buffer passed to \<open>send\<close>
  is the pointer \<open>msg\<close> itself; the length passed is \<open>msg_size - sent_bytes\<close>.
\<close>

datatype loop_exit = Break c_int world | Continue size_t world

definition sendto_tcp_body ::
  "environment \<Rightarrow> string \<Rightarrow> size_t \<Rightarrow> size_t \<Rightarrow> world \<Rightarrow> loop_exit"
where
  "sendto_tcp_body env msg msg_size sent_bytes w0 =
     (let (recv_result, w1) = recv env (handle (target w0)) 1 {MSG_DONTWAIT} w0
      in if recv_result = 0 then
           (let w2 = raise_network_closed w1;
                w3 = close_fd (handle (target w2)) w2;
                w4 = set_handle (-1) w3
            in Break (-1) w4)
         else
           (let (send_result, w2) = send env (handle (target w1))
                                      (bytes_at msg 0 (msg_size - sent_bytes))
                                      (msg_size - sent_bytes)
                                      (config_disallow_signal_during_sending_flag env) w1
            in if send_result = -1 then
                 Break (-1) (raise_socket_send_failure (errno w2) w2)
               else Continue (sent_bytes + send_result) w2))"

text \<open>
  The loop. Nothing bounds the number of passes (a \<open>send\<close> may accept no byte, again and
  again), so the loop is a partial function: \<open>None\<close> is a loop that never ends.
\<close>

partial_function (option) sendto_tcp_loop ::
  "environment \<Rightarrow> string \<Rightarrow> size_t \<Rightarrow> size_t \<Rightarrow> world \<Rightarrow> (c_int \<times> world) option"
where
  "sendto_tcp_loop env msg msg_size sent_bytes w =
     (if sent_bytes < msg_size then
        (case sendto_tcp_body env msg msg_size sent_bytes w of
           Break result w' \<Rightarrow> Some (result, w')
         | Continue sent_bytes' w' \<Rightarrow> sendto_tcp_loop env msg msg_size sent_bytes' w')
      else Some (1, w))"

definition sys_socket_sendto_tcp_target ::
  "environment \<Rightarrow> string \<Rightarrow> size_t \<Rightarrow> world \<Rightarrow> (c_int \<times> world) option"
where
  "sys_socket_sendto_tcp_target env msg msg_size w0 =
     (let w1 = lock_network_target w0
      in case sendto_tcp_loop env msg msg_size 0 w1 of
           None \<Rightarrow> None
         | Some (result, w2) \<Rightarrow> Some (result, unlock_network_target w2))"

text \<open>
  \<open>passes k\<close>: the values of \<open>sent_bytes\<close> and of the world at the loop test after \<open>k\<close>
  passes through the body that reached its bottom, when the loop gets that far.
\<close>

fun passes ::
  "nat \<Rightarrow> environment \<Rightarrow> string \<Rightarrow> size_t \<Rightarrow> size_t \<Rightarrow> world \<Rightarrow> (size_t \<times> world) option"
where
  "passes 0 env msg msg_size sent_bytes w = Some (sent_bytes, w)"
| "passes (Suc k) env msg msg_size sent_bytes w =
     (if sent_bytes < msg_size then
        (case sendto_tcp_body env msg msg_size sent_bytes w of
           Break result w' \<Rightarrow> None
         | Continue sent_bytes' w' \<Rightarrow> passes k env msg msg_size sent_bytes' w')
      else None)"

subsection \<open>Send over UDP\<close>

definition sys_socket_sendto_udp_target ::
  "environment \<Rightarrow> string \<Rightarrow> size_t \<Rightarrow> world \<Rightarrow> c_int \<times> world"
where
  "sys_socket_sendto_udp_target env msg msg_size w0 =
     (let w1 = lock_network_target w0;
          (send_result, w2) = send env (handle (target w1)) (bytes_at msg 0 msg_size) msg_size
                                (config_disallow_signal_during_sending_flag env) w1
      in if send_result = -1 then
           (let w3 = unlock_network_target w2;
                w4 = raise_socket_send_failure (errno w3) w3
            in (-1, w4))
         else
           (let w3 = unlock_network_target w2
            in (1, w3)))"

subsection \<open>The routine of the specification\<close>

text \<open>
  The specification describes the four open operations as one routine taking the address
  family and the socket type, and the four reopen operations as another. These two
  definitions follow its words, not the source: acquire the mutex; connect to
  \<open>destination:port\<close> with the family and socket type given; store the resulting handle
  (the closed sentinel on failure); release the mutex; return the target on success and the
  failure indicator otherwise. For reopen: acquire the mutex; if the target is open, close
  the existing handle and connect again; release the mutex; return the target.
\<close>

definition spec_open_target ::
  "address_family \<Rightarrow> socket_type \<Rightarrow> environment \<Rightarrow> world \<Rightarrow> target_ptr \<times> world"
where
  "spec_open_target af st env w =
     (let locked = lock_network_target w;
          (h, connected) = config_int_connect env (destination (target locked))
                             (port (target locked)) af st 0 locked;
          stored = set_handle (if h = -1 then -1 else h) connected;
          released = unlock_network_target stored
      in (if h = -1 then NULL else Target_ptr, released))"

definition spec_reopen_target ::
  "address_family \<Rightarrow> socket_type \<Rightarrow> environment \<Rightarrow> world \<Rightarrow> target_ptr \<times> world"
where
  "spec_reopen_target af st env w =
     (let locked = lock_network_target w;
          reconnected =
            (if handle (target locked) = -1 then locked
             else
               (let closed = close_fd (handle (target locked)) locked;
                    (h, connected) = config_int_connect env (destination (target closed))
                                       (port (target closed)) af st 0 closed
                in set_handle h connected))
      in (Target_ptr, unlock_network_target reconnected))"

subsection \<open>What the history means for the operating system\<close>

text \<open>
  The descriptors the process holds after a history: a connect that does not fail adds the
  descriptor it returns, a close removes the descriptor closed.
\<close>

fun handles_after :: "c_int list \<Rightarrow> event \<Rightarrow> c_int list" where
  "handles_after hs (Connect dest prt af st proto r) = (if r = -1 then hs else hs @ [r])"
| "handles_after hs (Close fd) = remove1 fd hs"
| "handles_after hs Mutex_init = hs"
| "handles_after hs Mutex_destroy = hs"
| "handles_after hs Mutex_lock = hs"
| "handles_after hs Mutex_unlock = hs"
| "handles_after hs (Recv fd len flags r) = hs"
| "handles_after hs (Send fd buf len flags r) = hs"
| "handles_after hs Raise_network_closed = hs"
| "handles_after hs (Raise_socket_send_failure code) = hs"

definition open_handles :: "event list \<Rightarrow> c_int list" where
  "open_handles evs = foldl handles_after [] evs"

text \<open>
  The invariant of the data model: the descriptors held are the handle of the target, or
  none when the target is closed.
\<close>

definition one_handle :: "world \<Rightarrow> bool" where
  "one_handle w \<longleftrightarrow>
     open_handles (history w) = (if handle (target w) = -1 then [] else [handle (target w)])"

text \<open>
  The bytes the peer of descriptor \<open>fd\<close> receives: a \<open>send\<close> that returns \<open>r\<close>, not the
  error value, has put the first \<open>r\<close> bytes of its buffer on the stream.
\<close>

fun bytes_accepted :: "c_int \<Rightarrow> event \<Rightarrow> string" where
  "bytes_accepted fd (Send fd' buf len flags r) =
     (if fd' = fd \<and> r \<noteq> -1 then take (unat r) buf else [])"
| "bytes_accepted fd (Connect dest prt af st proto r) = []"
| "bytes_accepted fd (Close fd') = []"
| "bytes_accepted fd Mutex_init = []"
| "bytes_accepted fd Mutex_destroy = []"
| "bytes_accepted fd Mutex_lock = []"
| "bytes_accepted fd Mutex_unlock = []"
| "bytes_accepted fd (Recv fd' len flags r) = []"
| "bytes_accepted fd Raise_network_closed = []"
| "bytes_accepted fd (Raise_socket_send_failure code) = []"

definition transmitted :: "c_int \<Rightarrow> event list \<Rightarrow> string" where
  "transmitted fd evs = concat (map (bytes_accepted fd) evs)"

text \<open>
  The number of inbound bytes taken off the stream of descriptor \<open>fd\<close>: a \<open>recv\<close> that
  returns \<open>r > 0\<close> removes the \<open>r\<close> bytes it read, unless \<open>MSG_PEEK\<close> is among its flags.
\<close>

fun bytes_consumed :: "c_int \<Rightarrow> event \<Rightarrow> nat" where
  "bytes_consumed fd (Recv fd' len flags r) =
     (if fd' = fd \<and> MSG_PEEK \<notin> flags \<and> 0 < sint r then unat r else 0)"
| "bytes_consumed fd (Connect dest prt af st proto r) = 0"
| "bytes_consumed fd (Close fd') = 0"
| "bytes_consumed fd Mutex_init = 0"
| "bytes_consumed fd Mutex_destroy = 0"
| "bytes_consumed fd Mutex_lock = 0"
| "bytes_consumed fd Mutex_unlock = 0"
| "bytes_consumed fd (Send fd' buf len flags r) = 0"
| "bytes_consumed fd Raise_network_closed = 0"
| "bytes_consumed fd (Raise_socket_send_failure code) = 0"

definition inbound_consumed :: "c_int \<Rightarrow> event list \<Rightarrow> nat" where
  "inbound_consumed fd evs = sum_list (map (bytes_consumed fd) evs)"

fun exit_world :: "loop_exit \<Rightarrow> world" where
  "exit_world (Break result w) = w"
| "exit_world (Continue sent_bytes w) = w"

fun is_send :: "event \<Rightarrow> bool" where
  "is_send (Send fd buf len flags r) = True"
| "is_send (Connect dest prt af st proto r) = False"
| "is_send (Close fd) = False"
| "is_send Mutex_init = False"
| "is_send Mutex_destroy = False"
| "is_send Mutex_lock = False"
| "is_send Mutex_unlock = False"
| "is_send (Recv fd len flags r) = False"
| "is_send Raise_network_closed = False"
| "is_send (Raise_socket_send_failure code) = False"

subsection \<open>Concrete worlds and environments\<close>

text \<open>
  A target that was initialised and never opened, and a target connected on descriptor 3.
\<close>

definition closed_world :: world where
  "closed_world =
     \<lparr>target = \<lparr>destination = ''localhost'', port = ''514'', handle = -1\<rparr>,
      errno = 0, history = [Mutex_init]\<rparr>"

definition open_world :: world where
  "open_world =
     \<lparr>target = \<lparr>destination = ''localhost'', port = ''514'', handle = 3\<rparr>,
      errno = 0,
      history = [Mutex_init, Mutex_lock,
                 Connect ''localhost'' ''514'' AF_INET SOCK_STREAM 0 3, Mutex_unlock]\<rparr>"

text \<open>
  \<open>trickle_env\<close>: every connect gives descriptor 4, no inbound data is waiting (\<open>recv\<close>
  fails with \<open>EAGAIN\<close>, 11), every \<open>send\<close> accepts one byte.
\<close>

definition trickle_env :: environment where
  "trickle_env =
     \<lparr>connect_reply = (\<lambda>evs dest prt af st proto. 4),
      recv_reply = (\<lambda>evs fd len flags. (-1, 11)),
      send_reply = (\<lambda>evs fd buf len flags. (1, 0)),
      config_disallow_signal_during_sending_flag = {MSG_NOSIGNAL}\<rparr>"

text \<open>
  \<open>failing_env\<close>: every connect fails, every \<open>send\<close> fails with \<open>EPIPE\<close> (32).
\<close>

definition failing_env :: environment where
  "failing_env =
     \<lparr>connect_reply = (\<lambda>evs dest prt af st proto. -1),
      recv_reply = (\<lambda>evs fd len flags. (-1, 11)),
      send_reply = (\<lambda>evs fd buf len flags. (-1, 32)),
      config_disallow_signal_during_sending_flag = {MSG_NOSIGNAL}\<rparr>"

text \<open>
  \<open>talking_env\<close>: the peer has sent data, so every \<open>recv\<close> reads one byte; every \<open>send\<close>
  accepts all it is given.
\<close>

definition talking_env :: environment where
  "talking_env =
     \<lparr>connect_reply = (\<lambda>evs dest prt af st proto. 4),
      recv_reply = (\<lambda>evs fd len flags. (1, 0)),
      send_reply = (\<lambda>evs fd buf len flags. (len, 0)),
      config_disallow_signal_during_sending_flag = {MSG_NOSIGNAL}\<rparr>"

text \<open>
  \<open>parting_env\<close>: before the call the peer has sent one byte and then shut down. A
  \<open>recv\<close> reads that byte as long as it has not been taken off the stream, and returns 0
  once it has; every \<open>send\<close> is still accepted in full.
\<close>

definition parting_env :: environment where
  "parting_env =
     \<lparr>connect_reply = (\<lambda>evs dest prt af st proto. 4),
      recv_reply = (\<lambda>evs fd len flags. if inbound_consumed fd evs = 0 then (1, 0) else (0, 0)),
      send_reply = (\<lambda>evs fd buf len flags. (len, 0)),
      config_disallow_signal_during_sending_flag = {MSG_NOSIGNAL}\<rparr>"

text \<open>
  \<open>hung_up_env\<close>: the peer has shut down and nothing is left to read, so every \<open>recv\<close>
  returns 0.
\<close>

definition hung_up_env :: environment where
  "hung_up_env =
     \<lparr>connect_reply = (\<lambda>evs dest prt af st proto. 4),
      recv_reply = (\<lambda>evs fd len flags. (0, 0)),
      send_reply = (\<lambda>evs fd buf len flags. (-1, 32)),
      config_disallow_signal_during_sending_flag = {MSG_NOSIGNAL}\<rparr>"

text \<open>
  \<open>breaking_env\<close>: the connection works for the first pass of a send on \<open>open_world\<close> (whose
  history has four events, so the first \<open>recv\<close> is the sixth event and the first \<open>send\<close>
  the seventh); after that the peer has shut down and every \<open>send\<close> fails with \<open>EPIPE\<close>.
\<close>

definition breaking_env :: environment where
  "breaking_env =
     \<lparr>connect_reply = (\<lambda>evs dest prt af st proto. 4),
      recv_reply = (\<lambda>evs fd len flags. if length evs < 7 then (-1, 11) else (0, 0)),
      send_reply = (\<lambda>evs fd buf len flags. if length evs < 7 then (1, 0) else (-1, 32)),
      config_disallow_signal_during_sending_flag = {MSG_NOSIGNAL}\<rparr>"

text \<open>
  \<open>resetting_env\<close>: as \<open>breaking_env\<close>, but no shutdown is seen: \<open>recv\<close> keeps failing with
  \<open>EAGAIN\<close> and the second \<open>send\<close> fails with \<open>EPIPE\<close>.
\<close>

definition resetting_env :: environment where
  "resetting_env =
     \<lparr>connect_reply = (\<lambda>evs dest prt af st proto. 4),
      recv_reply = (\<lambda>evs fd len flags. (-1, 11)),
      send_reply = (\<lambda>evs fd buf len flags. if length evs < 7 then (1, 0) else (-1, 32)),
      config_disallow_signal_during_sending_flag = {MSG_NOSIGNAL}\<rparr>"

section \<open>Properties\<close>

subsection \<open>Each operation as one step on the world\<close>

lemmas outside_defs =
  emit_def set_handle_def lock_network_target_def unlock_network_target_def
  config_init_mutex_def config_destroy_mutex_def close_fd_def config_int_connect_def
  recv_def send_def raise_network_closed_def raise_socket_send_failure_def

lemma open_tcp4_step:
  "sys_socket_open_tcp4_target env w =
     (let r = connect_reply env (history w @ [Mutex_lock]) (destination (target w))
                (port (target w)) AF_INET SOCK_STREAM 0
      in (if r = -1 then NULL else Target_ptr,
          w\<lparr>target := (target w)\<lparr>handle := r\<rparr>,
            history := history w @ [Mutex_lock,
              Connect (destination (target w)) (port (target w)) AF_INET SOCK_STREAM 0 r,
              Mutex_unlock]\<rparr>))"
  by (simp add: sys_socket_open_tcp4_target_def outside_defs Let_def)

lemma open_tcp6_step:
  "sys_socket_open_tcp6_target env w =
     (let r = connect_reply env (history w @ [Mutex_lock]) (destination (target w))
                (port (target w)) AF_INET6 SOCK_STREAM 0
      in (if r = -1 then NULL else Target_ptr,
          w\<lparr>target := (target w)\<lparr>handle := r\<rparr>,
            history := history w @ [Mutex_lock,
              Connect (destination (target w)) (port (target w)) AF_INET6 SOCK_STREAM 0 r,
              Mutex_unlock]\<rparr>))"
  by (simp add: sys_socket_open_tcp6_target_def outside_defs Let_def)

lemma open_udp4_step:
  "sys_socket_open_udp4_target env w =
     (let r = connect_reply env (history w @ [Mutex_lock]) (destination (target w))
                (port (target w)) AF_INET SOCK_DGRAM 0
      in (if r = -1 then NULL else Target_ptr,
          w\<lparr>target := (target w)\<lparr>handle := r\<rparr>,
            history := history w @ [Mutex_lock,
              Connect (destination (target w)) (port (target w)) AF_INET SOCK_DGRAM 0 r,
              Mutex_unlock]\<rparr>))"
  by (simp add: sys_socket_open_udp4_target_def outside_defs Let_def)

lemma open_udp6_step:
  "sys_socket_open_udp6_target env w =
     (let r = connect_reply env (history w @ [Mutex_lock]) (destination (target w))
                (port (target w)) AF_INET6 SOCK_DGRAM 0
      in (if r = -1 then NULL else Target_ptr,
          w\<lparr>target := (target w)\<lparr>handle := r\<rparr>,
            history := history w @ [Mutex_lock,
              Connect (destination (target w)) (port (target w)) AF_INET6 SOCK_DGRAM 0 r,
              Mutex_unlock]\<rparr>))"
  by (simp add: sys_socket_open_udp6_target_def outside_defs Let_def)

lemmas open_steps = open_tcp4_step open_tcp6_step open_udp4_step open_udp6_step

lemma reopen_tcp4_step:
  "sys_socket_reopen_tcp4_target env w =
     (Target_ptr,
      if handle (target w) \<noteq> -1 then
        (let r = connect_reply env (history w @ [Mutex_lock, Close (handle (target w))])
                   (destination (target w)) (port (target w)) AF_INET SOCK_STREAM 0
         in w\<lparr>target := (target w)\<lparr>handle := r\<rparr>,
              history := history w @ [Mutex_lock, Close (handle (target w)),
                Connect (destination (target w)) (port (target w)) AF_INET SOCK_STREAM 0 r,
                Mutex_unlock]\<rparr>)
      else w\<lparr>history := history w @ [Mutex_lock, Mutex_unlock]\<rparr>)"
  by (simp add: sys_socket_reopen_tcp4_target_def sys_socket_network_target_is_open_def
        outside_defs Let_def)

lemma reopen_tcp6_step:
  "sys_socket_reopen_tcp6_target env w =
     (Target_ptr,
      if handle (target w) \<noteq> -1 then
        (let r = connect_reply env (history w @ [Mutex_lock, Close (handle (target w))])
                   (destination (target w)) (port (target w)) AF_INET6 SOCK_STREAM 0
         in w\<lparr>target := (target w)\<lparr>handle := r\<rparr>,
              history := history w @ [Mutex_lock, Close (handle (target w)),
                Connect (destination (target w)) (port (target w)) AF_INET6 SOCK_STREAM 0 r,
                Mutex_unlock]\<rparr>)
      else w\<lparr>history := history w @ [Mutex_lock, Mutex_unlock]\<rparr>)"
  by (simp add: sys_socket_reopen_tcp6_target_def sys_socket_network_target_is_open_def
        outside_defs Let_def)

lemma reopen_udp4_step:
  "sys_socket_reopen_udp4_target env w =
     (Target_ptr,
      if handle (target w) \<noteq> -1 then
        (let r = connect_reply env (history w @ [Mutex_lock, Close (handle (target w))])
                   (destination (target w)) (port (target w)) AF_INET SOCK_DGRAM 0
         in w\<lparr>target := (target w)\<lparr>handle := r\<rparr>,
              history := history w @ [Mutex_lock, Close (handle (target w)),
                Connect (destination (target w)) (port (target w)) AF_INET SOCK_DGRAM 0 r,
                Mutex_unlock]\<rparr>)
      else w\<lparr>history := history w @ [Mutex_lock, Mutex_unlock]\<rparr>)"
  by (simp add: sys_socket_reopen_udp4_target_def sys_socket_network_target_is_open_def
        outside_defs Let_def)

lemma reopen_udp6_step:
  "sys_socket_reopen_udp6_target env w =
     (Target_ptr,
      if handle (target w) \<noteq> -1 then
        (let r = connect_reply env (history w @ [Mutex_lock, Close (handle (target w))])
                   (destination (target w)) (port (target w)) AF_INET6 SOCK_DGRAM 0
         in w\<lparr>target := (target w)\<lparr>handle := r\<rparr>,
              history := history w @ [Mutex_lock, Close (handle (target w)),
                Connect (destination (target w)) (port (target w)) AF_INET6 SOCK_DGRAM 0 r,
                Mutex_unlock]\<rparr>)
      else w\<lparr>history := history w @ [Mutex_lock, Mutex_unlock]\<rparr>)"
  by (simp add: sys_socket_reopen_udp6_target_def sys_socket_network_target_is_open_def
        outside_defs Let_def)

lemmas reopen_steps = reopen_tcp4_step reopen_tcp6_step reopen_udp4_step reopen_udp6_step

lemma sendto_udp_step:
  "sys_socket_sendto_udp_target env msg msg_size w =
     (let h = handle (target w);
          buf = bytes_at msg 0 msg_size;
          flags = config_disallow_signal_during_sending_flag env;
          r = fst (send_reply env (history w @ [Mutex_lock]) h buf msg_size flags);
          e = snd (send_reply env (history w @ [Mutex_lock]) h buf msg_size flags)
      in if r = -1 then
           (-1, w\<lparr>errno := e,
                  history := history w @ [Mutex_lock, Send h buf msg_size flags r,
                    Mutex_unlock, Raise_socket_send_failure e]\<rparr>)
         else
           (1, w\<lparr>errno := e,
                 history := history w @ [Mutex_lock, Send h buf msg_size flags r,
                   Mutex_unlock]\<rparr>))"
  by (simp add: sys_socket_sendto_udp_target_def outside_defs Let_def split_beta)

subsection \<open>The send loop\<close>

lemma sendto_tcp_body_step:
  "sendto_tcp_body env msg msg_size sent_bytes w =
     (let h = handle (target w);
          rr = fst (recv_reply env (history w) h 1 {MSG_DONTWAIT});
          re = snd (recv_reply env (history w) h 1 {MSG_DONTWAIT});
          checked = Recv h 1 {MSG_DONTWAIT} rr;
          buf = bytes_at msg 0 (msg_size - sent_bytes);
          flags = config_disallow_signal_during_sending_flag env;
          sr = fst (send_reply env (history w @ [checked]) h buf (msg_size - sent_bytes) flags);
          se = snd (send_reply env (history w @ [checked]) h buf (msg_size - sent_bytes) flags)
      in if rr = 0 then
           Break (-1) (w\<lparr>target := (target w)\<lparr>handle := -1\<rparr>, errno := re,
                         history := history w @ [checked, Raise_network_closed, Close h]\<rparr>)
         else if sr = -1 then
           Break (-1) (w\<lparr>errno := se,
                         history := history w @ [checked,
                           Send h buf (msg_size - sent_bytes) flags sr,
                           Raise_socket_send_failure se]\<rparr>)
         else
           Continue (sent_bytes + sr)
             (w\<lparr>errno := se,
                history := history w @ [checked,
                  Send h buf (msg_size - sent_bytes) flags sr]\<rparr>))"
  by (simp add: sendto_tcp_body_def outside_defs Let_def split_beta)

lemma body_continue:
  assumes "sendto_tcp_body env msg msg_size sent_bytes w = Continue s1 w1"
  shows "target w1 = target w" and "\<exists>evs. history w1 = history w @ evs"
    and "open_handles (history w1) = open_handles (history w)"
  using assms by (auto simp: sendto_tcp_body_step open_handles_def Let_def split: if_splits)

lemma body_break:
  assumes "sendto_tcp_body env msg msg_size sent_bytes w = Break rb wb"
  shows "\<exists>evs. history wb = history w @ evs"
    and "target wb = target w
      \<or> (target wb = (target w)\<lparr>handle := -1\<rparr>
         \<and> (\<exists>pre. history wb = pre @ [Recv (handle (target w)) 1 {MSG_DONTWAIT} 0,
                Raise_network_closed, Close (handle (target w))]))"
  using assms by (auto simp: sendto_tcp_body_step Let_def split: if_splits)

lemma passes_target:
  "passes k env msg msg_size sent_bytes w = Some (sent_bytes', w') \<Longrightarrow> target w' = target w"
proof (induction k arbitrary: sent_bytes w)
  case 0
  then show ?case by simp
next
  case (Suc k)
  then show ?case
    by (auto simp: sendto_tcp_body_step Let_def split: if_splits)
qed

lemma passes_open_handles:
  "passes k env msg msg_size sent_bytes w = Some (sent_bytes', w') \<Longrightarrow>
   open_handles (history w') = open_handles (history w)"
proof (induction k arbitrary: sent_bytes w)
  case 0
  then show ?case by simp
next
  case (Suc k)
  show ?case
  proof (cases "sendto_tcp_body env msg msg_size sent_bytes w")
    case (Break r wb)
    with Suc.prems show ?thesis by (simp split: if_splits)
  next
    case (Continue s1 w1)
    with Suc.prems have "passes k env msg msg_size s1 w1 = Some (sent_bytes', w')"
      by (simp split: if_splits)
    from Suc.IH [OF this] body_continue(3) [OF Continue] show ?thesis by simp
  qed
qed

lemma passes_loop:
  "passes k env msg msg_size sent_bytes w = Some (sent_bytes', w') \<Longrightarrow>
   sendto_tcp_loop env msg msg_size sent_bytes w = sendto_tcp_loop env msg msg_size sent_bytes' w'"
proof (induction k arbitrary: sent_bytes w)
  case 0
  then show ?case by simp
next
  case (Suc k)
  show ?case
  proof (cases "sendto_tcp_body env msg msg_size sent_bytes w")
    case (Break r wb)
    with Suc.prems show ?thesis by (simp split: if_splits)
  next
    case (Continue s1 w1)
    with Suc.prems have lt: "sent_bytes < msg_size"
      and rest: "passes k env msg msg_size s1 w1 = Some (sent_bytes', w')"
      by (simp_all split: if_splits)
    have "sendto_tcp_loop env msg msg_size sent_bytes w = sendto_tcp_loop env msg msg_size s1 w1"
      by (subst sendto_tcp_loop.simps) (simp add: lt Continue)
    with Suc.IH [OF rest] show ?thesis by simp
  qed
qed

lemma loop_peer_shutdown:
  assumes "sent_bytes < msg_size"
      and "fst (recv_reply env (history w) (handle (target w)) 1 {MSG_DONTWAIT}) = 0"
  shows "sendto_tcp_loop env msg msg_size sent_bytes w =
     Some (-1, w\<lparr>target := (target w)\<lparr>handle := -1\<rparr>,
                 errno := snd (recv_reply env (history w) (handle (target w)) 1 {MSG_DONTWAIT}),
                 history := history w @ [Recv (handle (target w)) 1 {MSG_DONTWAIT} 0,
                   Raise_network_closed, Close (handle (target w))]\<rparr>)"
  using assms by (subst sendto_tcp_loop.simps) (simp add: sendto_tcp_body_step Let_def)

lemma loop_send_failure:
  assumes "sent_bytes < msg_size"
      and "fst (recv_reply env (history w) (handle (target w)) 1 {MSG_DONTWAIT}) = rr"
      and "rr \<noteq> 0"
      and "send_reply env (history w @ [Recv (handle (target w)) 1 {MSG_DONTWAIT} rr])
             (handle (target w)) (bytes_at msg 0 (msg_size - sent_bytes))
             (msg_size - sent_bytes) (config_disallow_signal_during_sending_flag env) = (-1, e)"
  shows "sendto_tcp_loop env msg msg_size sent_bytes w =
     Some (-1, w\<lparr>errno := e,
                 history := history w @ [Recv (handle (target w)) 1 {MSG_DONTWAIT} rr,
                   Send (handle (target w)) (bytes_at msg 0 (msg_size - sent_bytes))
                     (msg_size - sent_bytes) (config_disallow_signal_during_sending_flag env) (-1),
                   Raise_socket_send_failure e]\<rparr>)"
  using assms by (subst sendto_tcp_loop.simps) (simp add: sendto_tcp_body_step Let_def)

lemma loop_handle:
  assumes "sendto_tcp_loop env msg msg_size sent_bytes w = Some y"
  shows "(\<exists>evs. history (snd y) = history w @ evs)
   \<and> (target (snd y) = target w
      \<or> (target (snd y) = (target w)\<lparr>handle := -1\<rparr>
         \<and> (\<exists>pre. history (snd y) = pre @ [Recv (handle (target w)) 1 {MSG_DONTWAIT} 0,
                Raise_network_closed, Close (handle (target w))])))"
  using assms
proof (induction rule: sendto_tcp_loop.raw_induct [rotated, consumes 1, case_names pass])
  case (pass loop env msg msg_size sent_bytes w y)
  show ?case
  proof (cases "sent_bytes < msg_size")
    case False
    with pass(2) show ?thesis by auto
  next
    case True
    show ?thesis
    proof (cases "sendto_tcp_body env msg msg_size sent_bytes w")
      case (Break rb wb)
      with True pass(2) have "snd y = wb" by auto
      with body_break [OF Break] show ?thesis by simp
    next
      case (Continue s1 w1)
      with True pass(2) have "loop env msg msg_size s1 w1 = Some y" by simp
      note ih = pass(1) [OF this]
      from body_continue [OF Continue] obtain evs1
        where t1: "target w1 = target w" and h1: "history w1 = history w @ evs1"
        by blast
      from ih obtain evs2 where h2: "history (snd y) = history w1 @ evs2"
        by blast
      have "history (snd y) = history w @ (evs1 @ evs2)"
        using h1 h2 by simp
      then have grows: "\<exists>evs. history (snd y) = history w @ evs" ..
      from ih have "target (snd y) = target w
        \<or> (target (snd y) = (target w)\<lparr>handle := -1\<rparr>
           \<and> (\<exists>pre. history (snd y) = pre @ [Recv (handle (target w)) 1 {MSG_DONTWAIT} 0,
                  Raise_network_closed, Close (handle (target w))]))"
        unfolding t1 by simp
      with grows show ?thesis by simp
    qed
  qed
qed

subsection \<open>The open test and initialisation\<close>

text \<open>
  Claim C8. For every target, the open test returns true (a value other than 0) if and only
  if the handle of the target differs from the closed sentinel \<open>-1\<close>, and it changes
  nothing: the world after the call is the world before it. Initialisation sets the handle
  to the closed sentinel, so the open test on a target that was just initialised returns
  false (0).
\<close>

theorem is_open_iff_handle_not_sentinel:
  "(fst (sys_socket_network_target_is_open w) \<noteq> 0 \<longleftrightarrow> handle (target w) \<noteq> -1)
   \<and> snd (sys_socket_network_target_is_open w) = w
   \<and> handle (target (sys_socket_init_network_target w)) = -1
   \<and> fst (sys_socket_network_target_is_open (sys_socket_init_network_target w)) = 0"
  by (simp add: sys_socket_network_target_is_open_def sys_socket_init_network_target_def
        outside_defs)

theorem is_open_iff_handle_not_sentinel_witness:
  "fst (sys_socket_network_target_is_open open_world) \<noteq> 0
   \<and> handle (target open_world) \<noteq> -1
   \<and> snd (sys_socket_network_target_is_open open_world) = open_world
   \<and> fst (sys_socket_network_target_is_open (sys_socket_init_network_target open_world)) = 0"
  using is_open_iff_handle_not_sentinel [of open_world]
  by (simp add: open_world_def)

subsection \<open>The four variants are one routine\<close>

text \<open>
  Claim C9. The four open operations are one algorithm that differs only in the address
  family and the socket type passed to the connect primitive: for every environment and
  every target, \<open>open_tcp4\<close>, \<open>open_tcp6\<close>, \<open>open_udp4\<close> and \<open>open_udp6\<close> are equal to the
  routine of the specification applied to \<open>(AF_INET, stream)\<close>, \<open>(AF_INET6, stream)\<close>,
  \<open>(AF_INET, datagram)\<close> and \<open>(AF_INET6, datagram)\<close>; the four reopen operations are
  equal, in the same way, to the reopen routine of the specification.
\<close>

theorem open_and_reopen_are_one_routine:
  "sys_socket_open_tcp4_target env w = spec_open_target AF_INET SOCK_STREAM env w
   \<and> sys_socket_open_tcp6_target env w = spec_open_target AF_INET6 SOCK_STREAM env w
   \<and> sys_socket_open_udp4_target env w = spec_open_target AF_INET SOCK_DGRAM env w
   \<and> sys_socket_open_udp6_target env w = spec_open_target AF_INET6 SOCK_DGRAM env w
   \<and> sys_socket_reopen_tcp4_target env w = spec_reopen_target AF_INET SOCK_STREAM env w
   \<and> sys_socket_reopen_tcp6_target env w = spec_reopen_target AF_INET6 SOCK_STREAM env w
   \<and> sys_socket_reopen_udp4_target env w = spec_reopen_target AF_INET SOCK_DGRAM env w
   \<and> sys_socket_reopen_udp6_target env w = spec_reopen_target AF_INET6 SOCK_DGRAM env w"
  by (simp add: open_steps reopen_steps spec_open_target_def spec_reopen_target_def
        outside_defs Let_def)

subsection \<open>Open: the value returned\<close>

text \<open>
  Claim C5. For every target and every environment, each of the four open operations makes
  one connect, with its own address family and socket type, and returns the target
  reference when that connect succeeds (returns a value other than \<open>-1\<close>) and \<open>NULL\<close> when
  it fails; when it fails the handle of the target is the closed sentinel after the call.
\<close>

theorem open_returns_target_or_null:
  "(let r = connect_reply env (history w @ [Mutex_lock]) (destination (target w))
               (port (target w)) AF_INET SOCK_STREAM 0;
        ret = fst (sys_socket_open_tcp4_target env w);
        w' = snd (sys_socket_open_tcp4_target env w)
    in history w' = history w @ [Mutex_lock,
         Connect (destination (target w)) (port (target w)) AF_INET SOCK_STREAM 0 r, Mutex_unlock]
       \<and> (r \<noteq> -1 \<longrightarrow> ret = Target_ptr)
       \<and> (r = -1 \<longrightarrow> ret = NULL \<and> handle (target w') = -1))
   \<and> (let r = connect_reply env (history w @ [Mutex_lock]) (destination (target w))
               (port (target w)) AF_INET6 SOCK_STREAM 0;
        ret = fst (sys_socket_open_tcp6_target env w);
        w' = snd (sys_socket_open_tcp6_target env w)
    in history w' = history w @ [Mutex_lock,
         Connect (destination (target w)) (port (target w)) AF_INET6 SOCK_STREAM 0 r, Mutex_unlock]
       \<and> (r \<noteq> -1 \<longrightarrow> ret = Target_ptr)
       \<and> (r = -1 \<longrightarrow> ret = NULL \<and> handle (target w') = -1))
   \<and> (let r = connect_reply env (history w @ [Mutex_lock]) (destination (target w))
               (port (target w)) AF_INET SOCK_DGRAM 0;
        ret = fst (sys_socket_open_udp4_target env w);
        w' = snd (sys_socket_open_udp4_target env w)
    in history w' = history w @ [Mutex_lock,
         Connect (destination (target w)) (port (target w)) AF_INET SOCK_DGRAM 0 r, Mutex_unlock]
       \<and> (r \<noteq> -1 \<longrightarrow> ret = Target_ptr)
       \<and> (r = -1 \<longrightarrow> ret = NULL \<and> handle (target w') = -1))
   \<and> (let r = connect_reply env (history w @ [Mutex_lock]) (destination (target w))
               (port (target w)) AF_INET6 SOCK_DGRAM 0;
        ret = fst (sys_socket_open_udp6_target env w);
        w' = snd (sys_socket_open_udp6_target env w)
    in history w' = history w @ [Mutex_lock,
         Connect (destination (target w)) (port (target w)) AF_INET6 SOCK_DGRAM 0 r, Mutex_unlock]
       \<and> (r \<noteq> -1 \<longrightarrow> ret = Target_ptr)
       \<and> (r = -1 \<longrightarrow> ret = NULL \<and> handle (target w') = -1))"
  by (simp add: open_steps Let_def)

theorem open_returns_target_or_null_witness:
  "fst (sys_socket_open_tcp4_target trickle_env closed_world) = Target_ptr
   \<and> fst (sys_socket_open_tcp6_target trickle_env closed_world) = Target_ptr
   \<and> fst (sys_socket_open_udp4_target trickle_env closed_world) = Target_ptr
   \<and> fst (sys_socket_open_udp6_target trickle_env closed_world) = Target_ptr
   \<and> fst (sys_socket_open_tcp4_target failing_env open_world) = NULL
   \<and> handle (target (snd (sys_socket_open_tcp4_target failing_env open_world))) = -1
   \<and> fst (sys_socket_open_tcp6_target failing_env open_world) = NULL
   \<and> handle (target (snd (sys_socket_open_tcp6_target failing_env open_world))) = -1
   \<and> fst (sys_socket_open_udp4_target failing_env open_world) = NULL
   \<and> handle (target (snd (sys_socket_open_udp4_target failing_env open_world))) = -1
   \<and> fst (sys_socket_open_udp6_target failing_env open_world) = NULL
   \<and> handle (target (snd (sys_socket_open_udp6_target failing_env open_world))) = -1"
  using open_returns_target_or_null [of trickle_env closed_world]
    open_returns_target_or_null [of failing_env open_world]
  by (simp add: trickle_env_def failing_env_def Let_def)

subsection \<open>Reopen on a closed target\<close>

text \<open>
  Claim C6. For every target whose handle is the closed sentinel, each of the four reopen
  operations is a no-op: it takes and releases the mutex and does nothing else (no connect
  is attempted), the target is as it was, the open test is false afterwards, and the call
  returns the target reference. Every reopen call, on any target and whether or not the
  reconnect succeeds, returns the target reference, never \<open>NULL\<close>.
\<close>

theorem reopen_closed_is_noop:
  "(handle (target w) = -1 \<longrightarrow>
      sys_socket_reopen_tcp4_target env w =
        (Target_ptr, w\<lparr>history := history w @ [Mutex_lock, Mutex_unlock]\<rparr>)
      \<and> fst (sys_socket_network_target_is_open
                (snd (sys_socket_reopen_tcp4_target env w))) = 0)
   \<and> fst (sys_socket_reopen_tcp4_target env w) = Target_ptr
   \<and> (handle (target w) = -1 \<longrightarrow>
      sys_socket_reopen_tcp6_target env w =
        (Target_ptr, w\<lparr>history := history w @ [Mutex_lock, Mutex_unlock]\<rparr>)
      \<and> fst (sys_socket_network_target_is_open
                (snd (sys_socket_reopen_tcp6_target env w))) = 0)
   \<and> fst (sys_socket_reopen_tcp6_target env w) = Target_ptr
   \<and> (handle (target w) = -1 \<longrightarrow>
      sys_socket_reopen_udp4_target env w =
        (Target_ptr, w\<lparr>history := history w @ [Mutex_lock, Mutex_unlock]\<rparr>)
      \<and> fst (sys_socket_network_target_is_open
                (snd (sys_socket_reopen_udp4_target env w))) = 0)
   \<and> fst (sys_socket_reopen_udp4_target env w) = Target_ptr
   \<and> (handle (target w) = -1 \<longrightarrow>
      sys_socket_reopen_udp6_target env w =
        (Target_ptr, w\<lparr>history := history w @ [Mutex_lock, Mutex_unlock]\<rparr>)
      \<and> fst (sys_socket_network_target_is_open
                (snd (sys_socket_reopen_udp6_target env w))) = 0)
   \<and> fst (sys_socket_reopen_udp6_target env w) = Target_ptr"
  by (simp add: reopen_steps sys_socket_network_target_is_open_def)

theorem reopen_closed_is_noop_witness:
  "handle (target closed_world) = -1
   \<and> sys_socket_reopen_tcp4_target trickle_env closed_world =
       (Target_ptr, closed_world\<lparr>history := [Mutex_init, Mutex_lock, Mutex_unlock]\<rparr>)
   \<and> fst (sys_socket_network_target_is_open
            (snd (sys_socket_reopen_tcp4_target trickle_env closed_world))) = 0
   \<and> fst (sys_socket_reopen_tcp4_target failing_env open_world) = Target_ptr
   \<and> sys_socket_reopen_tcp6_target trickle_env closed_world =
       (Target_ptr, closed_world\<lparr>history := [Mutex_init, Mutex_lock, Mutex_unlock]\<rparr>)
   \<and> fst (sys_socket_network_target_is_open
            (snd (sys_socket_reopen_tcp6_target trickle_env closed_world))) = 0
   \<and> fst (sys_socket_reopen_tcp6_target failing_env open_world) = Target_ptr
   \<and> sys_socket_reopen_udp4_target trickle_env closed_world =
       (Target_ptr, closed_world\<lparr>history := [Mutex_init, Mutex_lock, Mutex_unlock]\<rparr>)
   \<and> fst (sys_socket_network_target_is_open
            (snd (sys_socket_reopen_udp4_target trickle_env closed_world))) = 0
   \<and> fst (sys_socket_reopen_udp4_target failing_env open_world) = Target_ptr
   \<and> sys_socket_reopen_udp6_target trickle_env closed_world =
       (Target_ptr, closed_world\<lparr>history := [Mutex_init, Mutex_lock, Mutex_unlock]\<rparr>)
   \<and> fst (sys_socket_network_target_is_open
            (snd (sys_socket_reopen_udp6_target trickle_env closed_world))) = 0
   \<and> fst (sys_socket_reopen_udp6_target failing_env open_world) = Target_ptr"
proof -
  have closed: "handle (target closed_world) = -1"
    by (simp add: closed_world_def)
  have hist: "history closed_world @ [Mutex_lock, Mutex_unlock] =
      [Mutex_init, Mutex_lock, Mutex_unlock]"
    by (simp add: closed_world_def)
  show ?thesis
    using closed reopen_closed_is_noop [of closed_world trickle_env]
      reopen_closed_is_noop [of open_world failing_env]
    unfolding hist by blast
qed

subsection \<open>Send over UDP: one attempt\<close>

text \<open>
  Claim C10. For every target and every message, \<open>sendto_udp\<close> makes exactly one \<open>send\<close>,
  of the whole message, and returns success (1) whenever that \<open>send\<close> does not return the
  error value \<open>-1\<close>, whatever the number of bytes the \<open>send\<close> reports: the number is never
  compared with \<open>msg_size\<close>, so a \<open>send\<close> that accepted fewer bytes is a success too.
\<close>

theorem sendto_udp_single_attempt:
  "(let h = handle (target w);
        buf = bytes_at msg 0 msg_size;
        flags = config_disallow_signal_during_sending_flag env;
        r = fst (send_reply env (history w @ [Mutex_lock]) h buf msg_size flags);
        w' = snd (sys_socket_sendto_udp_target env msg msg_size w)
    in length (filter is_send (history w')) = Suc (length (filter is_send (history w)))
       \<and> (r \<noteq> -1 \<longrightarrow>
            fst (sys_socket_sendto_udp_target env msg msg_size w) = 1
            \<and> history w' = history w @ [Mutex_lock, Send h buf msg_size flags r, Mutex_unlock]))"
  by (simp add: sendto_udp_step Let_def)

theorem sendto_udp_single_attempt_witness:
  "fst (send_reply trickle_env (history open_world @ [Mutex_lock]) 3 ''abc'' 3 {MSG_NOSIGNAL}) = 1
   \<and> fst (sys_socket_sendto_udp_target trickle_env ''abc'' 3 open_world) = 1
   \<and> history (snd (sys_socket_sendto_udp_target trickle_env ''abc'' 3 open_world)) =
       history open_world @ [Mutex_lock, Send 3 ''abc'' 3 {MSG_NOSIGNAL} 1, Mutex_unlock]"
  using sendto_udp_single_attempt [of open_world "''abc''" 3 trickle_env]
  by (simp add: trickle_env_def open_world_def bytes_at_def Let_def)

subsection \<open>Send over TCP: what reaches the peer\<close>

text \<open>
  Claim C1. For every target with an open TCP handle and every message of size \<open>S\<close>, a call
  to \<open>sendto_tcp\<close> that returns success transmits exactly the \<open>S\<close> bytes of the message to
  the peer, in order, each retry after a partial send resuming at the offset of the bytes
  already sent.

  The code does not do this. A retry passes the length of the remainder,
  \<open>msg_size - sent_bytes\<close>, but the pointer \<open>msg\<close>, the start of the message, so it sends the
  first bytes again. The theorem runs the call on the two-byte message \<open>ab\<close> over a
  connection on which each \<open>send\<close> accepts one byte: the call returns success (1) and the
  peer has received \<open>aa\<close>.
\<close>

theorem sendto_tcp_resends_from_start:
  "map_option fst (sys_socket_sendto_tcp_target trickle_env ''ab'' 2 open_world) = Some 1
   \<and> map_option (transmitted 3 \<circ> history \<circ> snd)
        (sys_socket_sendto_tcp_target trickle_env ''ab'' 2 open_world) = Some ''aa''"
  by (simp add: sys_socket_sendto_tcp_target_def sendto_tcp_loop.simps sendto_tcp_body_step
     lock_network_target_def unlock_network_target_def emit_def
     trickle_env_def open_world_def bytes_at_def transmitted_def Let_def)

subsection \<open>Send over TCP: the peer has shut down\<close>

text \<open>
  Claim C4 says that for every target whose peer performs an orderly shutdown before all
  bytes are sent, \<open>sendto_tcp\<close> returns failure, the local handle is closed and reset to the
  closed sentinel, and a following open test on the target returns false. The code sees a
  shutdown only as a \<open>recv\<close> that returns 0, and a \<open>recv\<close> returns 0 only when no unread
  data is in front of the shutdown. Here the peer has sent one byte and then shut down,
  both before the call. The \<open>recv\<close> of the first pass reads that byte (a second \<open>recv\<close>
  would return 0), the \<open>send\<close> of the same pass accepts the whole two-byte message, and
  the loop ends: the call returns success (1), nothing is closed, the handle is still 3 and
  the open test returns true.
\<close>

theorem sendto_tcp_misses_shutdown_behind_data:
  "fst (recv_reply parting_env (history open_world @ [Mutex_lock]) 3 1 {MSG_DONTWAIT}) = 1
   \<and> fst (recv_reply parting_env
          (history open_world @ [Mutex_lock, Recv 3 1 {MSG_DONTWAIT} 1]) 3 1 {MSG_DONTWAIT}) = 0
   \<and> sys_socket_sendto_tcp_target parting_env ''ab'' 2 open_world =
       Some (1, open_world\<lparr>errno := 0,
         history := history open_world @ [Mutex_lock, Recv 3 1 {MSG_DONTWAIT} 1,
           Send 3 ''ab'' 2 {MSG_NOSIGNAL} 2, Mutex_unlock]\<rparr>)
   \<and> map_option (handle \<circ> target \<circ> snd)
        (sys_socket_sendto_tcp_target parting_env ''ab'' 2 open_world) = Some 3
   \<and> map_option (fst \<circ> sys_socket_network_target_is_open \<circ> snd)
        (sys_socket_sendto_tcp_target parting_env ''ab'' 2 open_world) = Some 1
   \<and> map_option (open_handles \<circ> history \<circ> snd)
        (sys_socket_sendto_tcp_target parting_env ''ab'' 2 open_world) = Some [3]"
  by (simp add: sys_socket_sendto_tcp_target_def sendto_tcp_loop.simps sendto_tcp_body_step
     sys_socket_network_target_is_open_def lock_network_target_def unlock_network_target_def
     emit_def parting_env_def open_world_def bytes_at_def inbound_consumed_def
     open_handles_def Let_def)

text \<open>
  Claim C4, as amended. For every target, when a \<open>recv\<close> of the send loop returns 0 (the
  orderly shutdown of the peer as the code detects it) while bytes are still to be sent,
  \<open>sendto_tcp\<close> returns failure, the local handle is closed and reset to the closed
  sentinel, and a following open test on the target returns false. In full: whenever the
  loop of a call, after any number \<open>k\<close> of passes, stands at its test with bytes still to
  send and the \<open>recv\<close> of the next pass returns 0, the call returns \<open>-1\<close>; it has reported
  the closed connection, closed the descriptor, stored \<open>-1\<close> as the handle and released
  the mutex, and the open test on the world it leaves returns 0.
\<close>

theorem sendto_tcp_peer_shutdown:
  assumes reached: "passes k env msg msg_size 0 (lock_network_target w) = Some (sent_bytes, wk)"
      and remaining: "sent_bytes < msg_size"
      and shutdown: "fst (recv_reply env (history wk) (handle (target w)) 1 {MSG_DONTWAIT}) = 0"
  shows "(let w' = wk\<lparr>target := (target w)\<lparr>handle := -1\<rparr>,
                     errno := snd (recv_reply env (history wk) (handle (target w)) 1 {MSG_DONTWAIT}),
                     history := history wk @ [Recv (handle (target w)) 1 {MSG_DONTWAIT} 0,
                       Raise_network_closed, Close (handle (target w)), Mutex_unlock]\<rparr>
          in sys_socket_sendto_tcp_target env msg msg_size w = Some (-1, w')
             \<and> handle (target w') = -1
             \<and> fst (sys_socket_network_target_is_open w') = 0
             \<and> open_handles (history w') =
                 remove1 (handle (target w)) (open_handles (history w)))"
proof -
  have same: "target wk = target w"
    using passes_target [OF reached] by (simp add: lock_network_target_def emit_def)
  have "sendto_tcp_loop env msg msg_size 0 (lock_network_target w) =
        sendto_tcp_loop env msg msg_size sent_bytes wk"
    by (rule passes_loop [OF reached])
  also have "\<dots> = Some (-1, wk\<lparr>target := (target wk)\<lparr>handle := -1\<rparr>,
       errno := snd (recv_reply env (history wk) (handle (target wk)) 1 {MSG_DONTWAIT}),
       history := history wk @ [Recv (handle (target wk)) 1 {MSG_DONTWAIT} 0,
         Raise_network_closed, Close (handle (target wk))]\<rparr>)"
    using remaining shutdown by (intro loop_peer_shutdown) (simp_all add: same)
  finally have returned: "sys_socket_sendto_tcp_target env msg msg_size w =
      Some (-1, wk\<lparr>target := (target w)\<lparr>handle := -1\<rparr>,
        errno := snd (recv_reply env (history wk) (handle (target w)) 1 {MSG_DONTWAIT}),
        history := history wk @ [Recv (handle (target w)) 1 {MSG_DONTWAIT} 0,
          Raise_network_closed, Close (handle (target w)), Mutex_unlock]\<rparr>)"
    by (simp add: sys_socket_sendto_tcp_target_def unlock_network_target_def emit_def same)
  have "open_handles (history wk) = open_handles (history w)"
    using passes_open_handles [OF reached]
    by (simp add: lock_network_target_def emit_def open_handles_def)
  then have held: "open_handles (history wk @ [Recv (handle (target w)) 1 {MSG_DONTWAIT} 0,
      Raise_network_closed, Close (handle (target w)), Mutex_unlock]) =
      remove1 (handle (target w)) (open_handles (history w))"
    by (simp add: open_handles_def)
  show ?thesis
    using returned held
    by (simp add: sys_socket_network_target_is_open_def Let_def)
qed

lemma first_pass_on_open_world:
  "passes (Suc 0) breaking_env ''ab'' 2 0 (lock_network_target open_world) =
     Some (1, open_world\<lparr>errno := 0,
       history := history open_world @ [Mutex_lock, Recv 3 1 {MSG_DONTWAIT} (-1),
         Send 3 ''ab'' 2 {MSG_NOSIGNAL} 1]\<rparr>)"
  by (simp add: sendto_tcp_body_step lock_network_target_def emit_def breaking_env_def
        open_world_def bytes_at_def Let_def)

theorem sendto_tcp_peer_shutdown_witness:
  "passes (Suc 0) breaking_env ''ab'' 2 0 (lock_network_target open_world) =
     Some (1, open_world\<lparr>errno := 0,
       history := history open_world @ [Mutex_lock, Recv 3 1 {MSG_DONTWAIT} (-1),
         Send 3 ''ab'' 2 {MSG_NOSIGNAL} 1]\<rparr>)
   \<and> (1 :: size_t) < 2
   \<and> sys_socket_sendto_tcp_target breaking_env ''ab'' 2 open_world =
       Some (-1, open_world\<lparr>target := (target open_world)\<lparr>handle := -1\<rparr>, errno := 0,
         history := history open_world @ [Mutex_lock, Recv 3 1 {MSG_DONTWAIT} (-1),
           Send 3 ''ab'' 2 {MSG_NOSIGNAL} 1, Recv 3 1 {MSG_DONTWAIT} 0,
           Raise_network_closed, Close 3, Mutex_unlock]\<rparr>)"
proof -
  note reached = first_pass_on_open_world
  have remaining: "(1 :: size_t) < 2"
    by simp
  have shutdown: "fst (recv_reply breaking_env
      (history (open_world\<lparr>errno := 0,
         history := history open_world @ [Mutex_lock, Recv 3 1 {MSG_DONTWAIT} (-1),
           Send 3 ''ab'' 2 {MSG_NOSIGNAL} 1]\<rparr>))
      (handle (target open_world)) 1 {MSG_DONTWAIT}) = 0"
    by (simp add: breaking_env_def open_world_def)
  show ?thesis
    using reached remaining sendto_tcp_peer_shutdown [OF reached remaining shutdown]
    by (simp add: breaking_env_def open_world_def Let_def)
qed

subsection \<open>A send that fails\<close>

text \<open>
  Claim C7. For every target, when the single \<open>send\<close> of \<open>sendto_udp\<close>, or a \<open>send\<close> inside
  the loop of \<open>sendto_tcp\<close>, fails with an error of the operating system (returns \<open>-1\<close>,
  with \<open>errno\<close> set to \<open>e\<close>), the call reports a send failure with the code \<open>e\<close> and returns
  failure (\<open>-1\<close>); the target, and with it the handle, is as it was before the call and no
  descriptor is closed. Only a peer closure that was detected changes the handle: whenever
  \<open>sendto_tcp\<close> returns, the target is as it was, or the handle is now the closed sentinel
  and the call ended with a \<open>recv\<close> that returned 0, the report of the closed connection and
  the close of the descriptor.
\<close>

theorem send_failure_keeps_handle:
  "(let h = handle (target w);
        flags = config_disallow_signal_during_sending_flag env;
        buf = bytes_at msg 0 msg_size;
        rest = bytes_at msg 0 (msg_size - sent_bytes)
    in (send_reply env (history w @ [Mutex_lock]) h buf msg_size flags = (-1, e) \<longrightarrow>
          sys_socket_sendto_udp_target env msg msg_size w =
            (-1, w\<lparr>errno := e,
                   history := history w @ [Mutex_lock, Send h buf msg_size flags (-1),
                     Mutex_unlock, Raise_socket_send_failure e]\<rparr>))
       \<and> (passes k env msg msg_size 0 (lock_network_target w) = Some (sent_bytes, wk)
          \<and> sent_bytes < msg_size
          \<and> fst (recv_reply env (history wk) h 1 {MSG_DONTWAIT}) = rr \<and> rr \<noteq> 0
          \<and> send_reply env (history wk @ [Recv h 1 {MSG_DONTWAIT} rr]) h rest
                (msg_size - sent_bytes) flags = (-1, e') \<longrightarrow>
          target wk = target w
          \<and> open_handles (history wk) = open_handles (history w)
          \<and> sys_socket_sendto_tcp_target env msg msg_size w =
              Some (-1, wk\<lparr>errno := e',
                     history := history wk @ [Recv h 1 {MSG_DONTWAIT} rr,
                       Send h rest (msg_size - sent_bytes) flags (-1),
                       Raise_socket_send_failure e', Mutex_unlock]\<rparr>))
       \<and> (sys_socket_sendto_tcp_target env msg msg_size w = Some y \<longrightarrow>
            target (snd y) = target w
            \<or> (target (snd y) = (target w)\<lparr>handle := -1\<rparr>
               \<and> (\<exists>pre. history (snd y) = pre @ [Recv h 1 {MSG_DONTWAIT} 0,
                      Raise_network_closed, Close h, Mutex_unlock]))))"
proof -
  let ?h = "handle (target w)"
  let ?flags = "config_disallow_signal_during_sending_flag env"
  let ?rest = "bytes_at msg 0 (msg_size - sent_bytes)"
  have udp: "sys_socket_sendto_udp_target env msg msg_size w =
      (-1, w\<lparr>errno := e,
             history := history w @ [Mutex_lock, Send ?h (bytes_at msg 0 msg_size) msg_size ?flags (-1),
               Mutex_unlock, Raise_socket_send_failure e]\<rparr>)"
    if "send_reply env (history w @ [Mutex_lock]) ?h (bytes_at msg 0 msg_size) msg_size ?flags = (-1, e)"
    using that by (simp add: sendto_udp_step Let_def)
  have tcp: "target wk = target w
      \<and> open_handles (history wk) = open_handles (history w)
      \<and> sys_socket_sendto_tcp_target env msg msg_size w =
          Some (-1, wk\<lparr>errno := e',
                 history := history wk @ [Recv ?h 1 {MSG_DONTWAIT} rr,
                   Send ?h ?rest (msg_size - sent_bytes) ?flags (-1),
                   Raise_socket_send_failure e', Mutex_unlock]\<rparr>)"
    if reached: "passes k env msg msg_size 0 (lock_network_target w) = Some (sent_bytes, wk)"
      and remaining: "sent_bytes < msg_size"
      and checked: "fst (recv_reply env (history wk) ?h 1 {MSG_DONTWAIT}) = rr" "rr \<noteq> 0"
      and failed: "send_reply env (history wk @ [Recv ?h 1 {MSG_DONTWAIT} rr]) ?h ?rest
                (msg_size - sent_bytes) ?flags = (-1, e')"
  proof -
    have same: "target wk = target w"
      using passes_target [OF reached] by (simp add: lock_network_target_def emit_def)
    have "sendto_tcp_loop env msg msg_size 0 (lock_network_target w) =
          sendto_tcp_loop env msg msg_size sent_bytes wk"
      by (rule passes_loop [OF reached])
    also have "\<dots> = Some (-1, wk\<lparr>errno := e',
        history := history wk @ [Recv (handle (target wk)) 1 {MSG_DONTWAIT} rr,
          Send (handle (target wk)) ?rest (msg_size - sent_bytes) ?flags (-1),
          Raise_socket_send_failure e']\<rparr>)"
      using remaining checked failed by (intro loop_send_failure) (simp_all add: same)
    finally have "sys_socket_sendto_tcp_target env msg msg_size w =
        Some (-1, wk\<lparr>errno := e',
          history := history wk @ [Recv ?h 1 {MSG_DONTWAIT} rr,
            Send ?h ?rest (msg_size - sent_bytes) ?flags (-1),
            Raise_socket_send_failure e', Mutex_unlock]\<rparr>)"
      by (simp add: sys_socket_sendto_tcp_target_def unlock_network_target_def emit_def same)
    moreover have "open_handles (history wk) = open_handles (history w)"
      using passes_open_handles [OF reached]
      by (simp add: lock_network_target_def emit_def open_handles_def)
    ultimately show ?thesis
      using same by simp
  qed
  have only_closure: "target (snd y) = target w
      \<or> (target (snd y) = (target w)\<lparr>handle := -1\<rparr>
         \<and> (\<exists>pre. history (snd y) = pre @ [Recv ?h 1 {MSG_DONTWAIT} 0,
                Raise_network_closed, Close ?h, Mutex_unlock]))"
    if returned: "sys_socket_sendto_tcp_target env msg msg_size w = Some y"
  proof -
    from returned obtain r w2
      where looped: "sendto_tcp_loop env msg msg_size 0 (lock_network_target w) = Some (r, w2)"
        and y: "y = (r, unlock_network_target w2)"
      by (auto simp: sys_socket_sendto_tcp_target_def Let_def split: option.splits)
    from loop_handle [OF looped]
    have "target w2 = target w
      \<or> (target w2 = (target w)\<lparr>handle := -1\<rparr>
         \<and> (\<exists>pre. history w2 = pre @ [Recv ?h 1 {MSG_DONTWAIT} 0,
                Raise_network_closed, Close ?h]))"
      by (simp add: lock_network_target_def emit_def)
    then show ?thesis
      by (auto simp: y unlock_network_target_def emit_def)
  qed
  show ?thesis
    unfolding Let_def using udp tcp only_closure by blast
qed

theorem send_failure_keeps_handle_witness:
  "send_reply failing_env (history open_world @ [Mutex_lock]) 3 ''abc'' 3 {MSG_NOSIGNAL} = (-1, 32)
   \<and> sys_socket_sendto_udp_target failing_env ''abc'' 3 open_world =
       (-1, open_world\<lparr>errno := 32,
          history := history open_world @ [Mutex_lock, Send 3 ''abc'' 3 {MSG_NOSIGNAL} (-1),
            Mutex_unlock, Raise_socket_send_failure 32]\<rparr>)
   \<and> sys_socket_sendto_tcp_target resetting_env ''ab'' 2 open_world =
       Some (-1, open_world\<lparr>errno := 32,
          history := history open_world @ [Mutex_lock, Recv 3 1 {MSG_DONTWAIT} (-1),
            Send 3 ''ab'' 2 {MSG_NOSIGNAL} 1, Recv 3 1 {MSG_DONTWAIT} (-1),
            Send 3 ''a'' 1 {MSG_NOSIGNAL} (-1), Raise_socket_send_failure 32,
            Mutex_unlock]\<rparr>)
   \<and> handle (target open_world) = 3"
proof -
  let ?wk = "open_world\<lparr>errno := 0,
       history := history open_world @ [Mutex_lock, Recv 3 1 {MSG_DONTWAIT} (-1),
         Send 3 ''ab'' 2 {MSG_NOSIGNAL} 1]\<rparr>"
  have udp_fails: "send_reply failing_env (history open_world @ [Mutex_lock])
      (handle (target open_world)) (bytes_at ''abc'' 0 3) 3
      (config_disallow_signal_during_sending_flag failing_env) = (-1, 32)"
    by (simp add: failing_env_def)
  have reached: "passes (Suc 0) resetting_env ''ab'' 2 0 (lock_network_target open_world) =
      Some (1, ?wk)"
    by (simp add: sendto_tcp_body_step lock_network_target_def emit_def resetting_env_def
          open_world_def bytes_at_def Let_def)
  have remaining: "(1 :: size_t) < 2"
    by simp
  have checked: "fst (recv_reply resetting_env (history ?wk) (handle (target open_world)) 1
      {MSG_DONTWAIT}) = -1" "(-1 :: ssize_t) \<noteq> 0"
    by (simp_all add: resetting_env_def)
  have tcp_fails: "send_reply resetting_env
      (history ?wk @ [Recv (handle (target open_world)) 1 {MSG_DONTWAIT} (-1)])
      (handle (target open_world)) (bytes_at ''ab'' 0 (2 - 1)) (2 - 1)
      (config_disallow_signal_during_sending_flag resetting_env) = (-1, 32)"
    by (simp add: resetting_env_def open_world_def)
  note udp = send_failure_keeps_handle [where w = open_world and env = failing_env
      and msg = "''abc''" and msg_size = 3 and e = 32, unfolded Let_def,
      THEN conjunct1, rule_format, OF udp_fails]
  note tcp = send_failure_keeps_handle [where w = open_world and env = resetting_env
      and msg = "''ab''" and msg_size = 2 and k = "Suc 0" and sent_bytes = 1 and wk = ?wk
      and rr = "-1" and e' = 32, unfolded Let_def,
      THEN conjunct2, THEN conjunct1, rule_format,
      OF conjI [OF reached conjI [OF remaining conjI [OF checked(1) conjI [OF checked(2) tcp_fails]]]]]
  show ?thesis
    using udp tcp
    by (simp add: failing_env_def resetting_env_def open_world_def bytes_at_def)
qed

subsection \<open>The check for a peer that has shut down\<close>

text \<open>
  Claim C3 says that the check made in each pass of the TCP send loop is a non-blocking
  peek-read of one byte, which detects an orderly shutdown through a read of length zero
  and does not consume inbound data when data is available. The flags the code passes to
  \<open>recv\<close> are \<open>MSG_DONTWAIT\<close> alone, without \<open>MSG_PEEK\<close>, so the read takes the byte off the
  stream. Here the peer has sent data, every \<open>recv\<close> reads one byte of it, and a call that
  sends a one-byte message and succeeds has consumed one inbound byte.
\<close>

theorem tcp_check_consumes_inbound_data:
  "fst (recv_reply talking_env (history (lock_network_target open_world)) 3 1 {MSG_DONTWAIT}) = 1
   \<and> inbound_consumed 3 (history open_world) = 0
   \<and> map_option fst (sys_socket_sendto_tcp_target talking_env ''a'' 1 open_world) = Some 1
   \<and> map_option (inbound_consumed 3 \<circ> history \<circ> snd)
        (sys_socket_sendto_tcp_target talking_env ''a'' 1 open_world) = Some 1"
  by (simp add: sys_socket_sendto_tcp_target_def sendto_tcp_loop.simps sendto_tcp_body_step
     lock_network_target_def unlock_network_target_def emit_def
     talking_env_def open_world_def bytes_at_def inbound_consumed_def Let_def)

text \<open>
  Claim C3, as amended. In each pass of the TCP send loop the check for a peer that has
  shut down is the first outside call of the pass: a non-blocking read (\<open>MSG_DONTWAIT\<close>,
  and no \<open>MSG_PEEK\<close>) of one byte from the handle. A read of length zero is an orderly
  shutdown: the pass breaks out of the loop with failure and the handle is the closed
  sentinel. A read that finds no data (\<open>-1\<close>) or a shutdown (0) consumes nothing; a read
  that finds data (returns 1) consumes one byte of the inbound stream.
\<close>

theorem tcp_check_reads_one_byte:
  "(let h = handle (target w);
        r = fst (recv_reply env (history w) h 1 {MSG_DONTWAIT});
        w' = exit_world (sendto_tcp_body env msg msg_size sent_bytes w)
    in take (Suc (length (history w))) (history w') = history w @ [Recv h 1 {MSG_DONTWAIT} r]
       \<and> (r = 0 \<longrightarrow>
            sendto_tcp_body env msg msg_size sent_bytes w = Break (-1) w'
            \<and> handle (target w') = -1
            \<and> inbound_consumed h (history w') = inbound_consumed h (history w))
       \<and> (r = -1 \<longrightarrow> inbound_consumed h (history w') = inbound_consumed h (history w))
       \<and> (r = 1 \<longrightarrow> inbound_consumed h (history w') = inbound_consumed h (history w) + 1))"
  by (simp add: sendto_tcp_body_step inbound_consumed_def Let_def)

theorem tcp_check_reads_one_byte_witness:
  "fst (recv_reply talking_env (history open_world) 3 1 {MSG_DONTWAIT}) = 1
   \<and> inbound_consumed 3 (history (exit_world (sendto_tcp_body talking_env ''a'' 1 0 open_world)))
       = inbound_consumed 3 (history open_world) + 1
   \<and> fst (recv_reply hung_up_env (history open_world) 3 1 {MSG_DONTWAIT}) = 0
   \<and> handle (target (exit_world (sendto_tcp_body hung_up_env ''a'' 1 0 open_world))) = -1
   \<and> inbound_consumed 3 (history (exit_world (sendto_tcp_body hung_up_env ''a'' 1 0 open_world)))
       = inbound_consumed 3 (history open_world)
   \<and> fst (recv_reply trickle_env (history open_world) 3 1 {MSG_DONTWAIT}) = -1
   \<and> inbound_consumed 3 (history (exit_world (sendto_tcp_body trickle_env ''a'' 1 0 open_world)))
       = inbound_consumed 3 (history open_world)"
  using tcp_check_reads_one_byte [of open_world talking_env "''a''" 1 0]
    tcp_check_reads_one_byte [of open_world hung_up_env "''a''" 1 0]
    tcp_check_reads_one_byte [of open_world trickle_env "''a''" 1 0]
  by (simp add: talking_env_def hung_up_env_def trickle_env_def open_world_def Let_def)

subsection \<open>One handle for a target\<close>

text \<open>
  Claim C2 says that every open and every reopen operation closes the handle the target had
  before it stores a new one, so that a target never has more than one descriptor; in
  particular that an open operation on a target that is already open closes the prior
  handle before it connects. The open operations contain no close. Here a target connected
  on descriptor 3 is opened again and the connect gives descriptor 4: afterwards the process
  holds 3 and 4, the target refers to 4 only, and 3 was never closed.
\<close>

theorem open_leaves_prior_handle_open:
  "one_handle open_world
   \<and> handle (target open_world) = 3
   \<and> handle (target (snd (sys_socket_open_tcp4_target trickle_env open_world))) = 4
   \<and> open_handles (history (snd (sys_socket_open_tcp4_target trickle_env open_world))) = [3, 4]
   \<and> Close 3 \<notin> set (history (snd (sys_socket_open_tcp4_target trickle_env open_world)))
   \<and> \<not> one_handle (snd (sys_socket_open_tcp4_target trickle_env open_world))"
  by (simp add: open_steps one_handle_def open_handles_def trickle_env_def open_world_def Let_def)

text \<open>
  Claim C2, as amended. Each of the four reopen operations, on a target that is open, closes
  the handle of the target before it connects, and stores the value the connect returned as
  the new handle; so a reopen keeps the invariant that the descriptors held for the target
  are its handle, or none when it is closed. Each of the four open operations keeps that
  invariant when the target is closed at the call.
\<close>

theorem reopen_closes_prior_handle:
  "(let h = handle (target w); dest = destination (target w); prt = port (target w)
    in (h \<noteq> -1 \<longrightarrow>
          history (snd (sys_socket_reopen_tcp4_target env w)) =
            history w @ [Mutex_lock, Close h,
              Connect dest prt AF_INET SOCK_STREAM 0
                (handle (target (snd (sys_socket_reopen_tcp4_target env w)))),
              Mutex_unlock])
       \<and> (one_handle w \<longrightarrow> one_handle (snd (sys_socket_reopen_tcp4_target env w)))
       \<and> (h \<noteq> -1 \<longrightarrow>
          history (snd (sys_socket_reopen_tcp6_target env w)) =
            history w @ [Mutex_lock, Close h,
              Connect dest prt AF_INET6 SOCK_STREAM 0
                (handle (target (snd (sys_socket_reopen_tcp6_target env w)))),
              Mutex_unlock])
       \<and> (one_handle w \<longrightarrow> one_handle (snd (sys_socket_reopen_tcp6_target env w)))
       \<and> (h \<noteq> -1 \<longrightarrow>
          history (snd (sys_socket_reopen_udp4_target env w)) =
            history w @ [Mutex_lock, Close h,
              Connect dest prt AF_INET SOCK_DGRAM 0
                (handle (target (snd (sys_socket_reopen_udp4_target env w)))),
              Mutex_unlock])
       \<and> (one_handle w \<longrightarrow> one_handle (snd (sys_socket_reopen_udp4_target env w)))
       \<and> (h \<noteq> -1 \<longrightarrow>
          history (snd (sys_socket_reopen_udp6_target env w)) =
            history w @ [Mutex_lock, Close h,
              Connect dest prt AF_INET6 SOCK_DGRAM 0
                (handle (target (snd (sys_socket_reopen_udp6_target env w)))),
              Mutex_unlock])
       \<and> (one_handle w \<longrightarrow> one_handle (snd (sys_socket_reopen_udp6_target env w)))
       \<and> (one_handle w \<and> h = -1 \<longrightarrow> one_handle (snd (sys_socket_open_tcp4_target env w)))
       \<and> (one_handle w \<and> h = -1 \<longrightarrow> one_handle (snd (sys_socket_open_tcp6_target env w)))
       \<and> (one_handle w \<and> h = -1 \<longrightarrow> one_handle (snd (sys_socket_open_udp4_target env w)))
       \<and> (one_handle w \<and> h = -1 \<longrightarrow> one_handle (snd (sys_socket_open_udp6_target env w))))"
  by (simp add: open_steps reopen_steps one_handle_def open_handles_def Let_def)

theorem reopen_closes_prior_handle_witness:
  "one_handle open_world
   \<and> handle (target open_world) \<noteq> -1
   \<and> history (snd (sys_socket_reopen_tcp4_target trickle_env open_world)) =
       history open_world @ [Mutex_lock, Close 3,
         Connect ''localhost'' ''514'' AF_INET SOCK_STREAM 0 4, Mutex_unlock]
   \<and> one_handle (snd (sys_socket_reopen_tcp4_target trickle_env open_world))
   \<and> history (snd (sys_socket_reopen_tcp6_target trickle_env open_world)) =
       history open_world @ [Mutex_lock, Close 3,
         Connect ''localhost'' ''514'' AF_INET6 SOCK_STREAM 0 4, Mutex_unlock]
   \<and> one_handle (snd (sys_socket_reopen_tcp6_target trickle_env open_world))
   \<and> history (snd (sys_socket_reopen_udp4_target trickle_env open_world)) =
       history open_world @ [Mutex_lock, Close 3,
         Connect ''localhost'' ''514'' AF_INET SOCK_DGRAM 0 4, Mutex_unlock]
   \<and> one_handle (snd (sys_socket_reopen_udp4_target trickle_env open_world))
   \<and> history (snd (sys_socket_reopen_udp6_target trickle_env open_world)) =
       history open_world @ [Mutex_lock, Close 3,
         Connect ''localhost'' ''514'' AF_INET6 SOCK_DGRAM 0 4, Mutex_unlock]
   \<and> one_handle (snd (sys_socket_reopen_udp6_target trickle_env open_world))
   \<and> one_handle closed_world
   \<and> handle (target closed_world) = -1
   \<and> one_handle (snd (sys_socket_open_tcp4_target trickle_env closed_world))
   \<and> one_handle (snd (sys_socket_open_tcp6_target trickle_env closed_world))
   \<and> one_handle (snd (sys_socket_open_udp4_target trickle_env closed_world))
   \<and> one_handle (snd (sys_socket_open_udp6_target trickle_env closed_world))"
proof -
  have inv_open: "one_handle open_world" and is_open: "handle (target open_world) \<noteq> -1"
    by (simp_all add: one_handle_def open_handles_def open_world_def)
  have inv_closed: "one_handle closed_world" and is_closed: "handle (target closed_world) = -1"
    by (simp_all add: one_handle_def open_handles_def closed_world_def)
  have new_handle:
    "handle (target (snd (sys_socket_reopen_tcp4_target trickle_env open_world))) = 4"
    "handle (target (snd (sys_socket_reopen_tcp6_target trickle_env open_world))) = 4"
    "handle (target (snd (sys_socket_reopen_udp4_target trickle_env open_world))) = 4"
    "handle (target (snd (sys_socket_reopen_udp6_target trickle_env open_world))) = 4"
    by (simp_all add: reopen_steps trickle_env_def open_world_def Let_def)
  show ?thesis
    using inv_open is_open inv_closed is_closed
      reopen_closes_prior_handle [of open_world trickle_env]
      reopen_closes_prior_handle [of closed_world trickle_env]
    by (simp add: Let_def new_handle) (simp add: open_world_def)
qed

end
